theory Spec2Isabelle
  imports Main "HOL-Library.Word" "HOL-Library.Sublist"
begin

section \<open>Python values used by \<open>config/palette.py\<close>\<close>

text \<open>
  Exceptions are values.  Only the classes that \<open>palette.py\<close> and the calls it makes can
  raise or catch are named; \<open>NoKeyError\<close> is the keyvalues library's subclass of
  \<open>LookupError\<close>, \<open>KeyError\<close> is the built-in one, and \<open>OtherError\<close> stands for any
  exception class outside \<open>LookupError\<close>, \<open>ValueError\<close> and \<open>AssertionError\<close>.
\<close>

datatype pyerr = AssertionError | KeyError | NoKeyError | ValueError | OtherError

text \<open>\<open>except (LookupError, ValueError)\<close> catches exactly these.\<close>

fun lookup_or_value_error :: "pyerr \<Rightarrow> bool" where
  "lookup_or_value_error KeyError = True"
| "lookup_or_value_error NoKeyError = True"
| "lookup_or_value_error ValueError = True"
| "lookup_or_value_error AssertionError = False"
| "lookup_or_value_error OtherError = False"

type_synonym bytes = "8 word list"

subsection \<open>Strings\<close>

text \<open>
  \<open>str.casefold\<close> on the ASCII range: capital letters become small letters, every other
  character stays.
\<close>

definition casefold_char :: "char \<Rightarrow> char" where
  "casefold_char c =
     (let n = (of_char c :: nat)
      in if 65 \<le> n \<and> n \<le> 90 then char_of (n + 32) else c)"

definition casefold :: "string \<Rightarrow> string" where
  "casefold s = map casefold_char s"

text \<open>
  \<open>s.replace(old, '')\<close>: every occurrence of \<open>old\<close>, found from the left without
  overlap, is deleted.  Only called with a non-empty \<open>old\<close>.
\<close>

fun str_delete :: "string \<Rightarrow> string \<Rightarrow> string" where
  "str_delete old [] = []"
| "str_delete old (c # cs) =
     (if old \<noteq> [] \<and> prefix old (c # cs)
      then str_delete old (drop (length old - 1) cs)
      else c # str_delete old cs)"

text \<open>\<open>s.strip(chars)\<close>: leading and trailing characters of the set are dropped.\<close>

definition str_strip :: "(char \<Rightarrow> bool) \<Rightarrow> string \<Rightarrow> string" where
  "str_strip p s = rev (dropWhile p (rev (dropWhile p s)))"

subsection \<open>\<open>int(s, 16)\<close>\<close>

text \<open>
  The interpreter's conversion of a string to an integer in base 16: white space around
  the literal is ignored, one sign is allowed, then an optional \<open>0x\<close> or \<open>0X\<close> (which may
  be followed by one underscore), then hexadecimal digits in either case with single
  underscores allowed between two digits.  Anything else is a \<open>ValueError\<close>, here
  \<open>None\<close>.
\<close>

definition is_space :: "char \<Rightarrow> bool" where
  "is_space c =
     (let n = (of_char c :: nat)
      in (9 \<le> n \<and> n \<le> 13) \<or> n = 32 \<or> n = 133 \<or> n = 160)"

definition hex_val :: "char \<Rightarrow> nat option" where
  "hex_val c =
     (let n = (of_char c :: nat)
      in if 48 \<le> n \<and> n \<le> 57 then Some (n - 48)
         else if 97 \<le> n \<and> n \<le> 102 then Some (n - 87)
         else if 65 \<le> n \<and> n \<le> 70 then Some (n - 55)
         else None)"

fun hex_body :: "string \<Rightarrow> nat list option" where
  "hex_body [] = None"
| "hex_body (c # cs) =
     (case hex_val c of
        None \<Rightarrow> None
      | Some d \<Rightarrow>
          (case cs of
             [] \<Rightarrow> Some [d]
           | x # xs \<Rightarrow>
               if x = CHR ''_'' then map_option ((#) d) (hex_body xs)
               else map_option ((#) d) (hex_body cs)))"

definition digits_value :: "nat \<Rightarrow> nat list \<Rightarrow> nat" where
  "digits_value b ds = foldl (\<lambda>a d. b * a + d) 0 ds"

definition skip_prefix :: "string \<Rightarrow> string" where
  "skip_prefix s =
     (case s of
        c0 # c1 # rest \<Rightarrow>
          if c0 = CHR ''0'' \<and> (c1 = CHR ''x'' \<or> c1 = CHR ''X'')
          then (case rest of u # rest' \<Rightarrow> if u = CHR ''_'' then rest' else rest | [] \<Rightarrow> rest)
          else s
      | _ \<Rightarrow> s)"

definition unsigned16 :: "string \<Rightarrow> nat option" where
  "unsigned16 s = map_option (digits_value 16) (hex_body (skip_prefix s))"

definition int16 :: "string \<Rightarrow> int option" where
  "int16 s =
     (case str_strip is_space s of
        [] \<Rightarrow> None
      | c # cs \<Rightarrow>
          if c = CHR ''+'' then map_option int (unsigned16 cs)
          else if c = CHR ''-'' then map_option (\<lambda>n. - int n) (unsigned16 cs)
          else map_option int (unsigned16 (c # cs)))"

subsection \<open>Identifiers\<close>

text \<open>
  A \<open>UUID\<close> is its 128-bit integer; two are equal when the integers are.
  \<open>u.hex\<close> is \<open>'%032x' % u.int\<close> and \<open>u.bytes\<close> is \<open>u.int.to_bytes(16)\<close>, big-endian.
\<close>

type_synonym uuid = "128 word"

fun nat_digits :: "nat \<Rightarrow> nat \<Rightarrow> nat \<Rightarrow> nat list" where
  "nat_digits b 0 n = []"
| "nat_digits b (Suc k) n = nat_digits b k (n div b) @ [n mod b]"

definition hex_char :: "nat \<Rightarrow> char" where
  "hex_char d = (if d < 10 then char_of (48 + d) else char_of (87 + d))"

definition uuid_hex :: "uuid \<Rightarrow> string" where
  "uuid_hex u = map hex_char (nat_digits 16 32 (unat u))"

definition uuid_bytes :: "uuid \<Rightarrow> bytes" where
  "uuid_bytes u = map of_nat (nat_digits 256 16 (unat u))"

text \<open>
  \<open>UUID(hex=s)\<close>: the prefixes \<open>urn:\<close> and \<open>uuid:\<close>, surrounding braces and all hyphens
  are removed, the rest must be 32 characters long and is read by \<open>int(s, 16)\<close>; the
  integer must fit 128 bits.  Every failure is a \<open>ValueError\<close>.
\<close>

definition uuid_of_hex :: "string \<Rightarrow> pyerr + uuid" where
  "uuid_of_hex s =
     (let h = str_delete ''uuid:'' (str_delete ''urn:'' s);
          h = str_delete ''-'' (str_strip (\<lambda>c. c = CHR ''{'' \<or> c = CHR ''}'') h)
      in if length h \<noteq> 32 then Inl ValueError
         else (case int16 h of
                 None \<Rightarrow> Inl ValueError
               | Some i \<Rightarrow>
                   if 0 \<le> i \<and> i < 2 ^ 128 then Inr (word_of_int i) else Inl ValueError))"

text \<open>\<open>UUID(bytes=b)\<close>: exactly 16 bytes, read big-endian.\<close>

definition uuid_of_bytes :: "bytes \<Rightarrow> pyerr + uuid" where
  "uuid_of_bytes b =
     (if length b \<noteq> 16 then Inl ValueError
      else Inr (word_of_nat (digits_value 256 (map unat b))))"

section \<open>The keyvalues tree\<close>

text \<open>
  A \<open>Property\<close> block as \<open>parse_kv1\<close> reads it and \<open>export_kv1\<close> builds it: a name and
  the list of its children, each child a name and a string value (the record's block
  holds scalars only).  Names are compared after case folding.
\<close>

datatype leaf = Leaf (leaf_name: string) (leaf_value: string)

datatype property = Property (block_name: string) (children: "leaf list")

text \<open>\<open>data.find_all(key)\<close>: the children of that name, in their order.\<close>

definition find_all :: "property \<Rightarrow> string \<Rightarrow> leaf list" where
  "find_all data key = filter (\<lambda>p. casefold (leaf_name p) = casefold key) (children data)"

text \<open>\<open>data[key]\<close>: the value of the last child of that name; \<open>NoKeyError\<close> without one.\<close>

definition getitem :: "property \<Rightarrow> string \<Rightarrow> pyerr + string" where
  "getitem data key =
     (case rev (find_all data key) of
        [] \<Rightarrow> Inl NoKeyError
      | p # _ \<Rightarrow> Inr (leaf_value p))"

definition BOOL_LOOKUP :: "(string \<times> bool) list" where
  "BOOL_LOOKUP =
     [(''0'', False), (''no'', False), (''false'', False), (''n'', False), (''f'', False),
      (''1'', True), (''yes'', True), (''true'', True), (''y'', True), (''t'', True)]"

definition conv_bool :: "string \<Rightarrow> bool \<Rightarrow> bool" where
  "conv_bool val dflt =
     (case map_of BOOL_LOOKUP (casefold val) of Some b \<Rightarrow> b | None \<Rightarrow> dflt)"

text \<open>\<open>data.bool(key, default)\<close>: the default when the key is absent or is no boolean.\<close>

definition prop_bool :: "property \<Rightarrow> string \<Rightarrow> bool \<Rightarrow> bool" where
  "prop_bool data key dflt =
     (case getitem data key of Inl _ \<Rightarrow> dflt | Inr v \<Rightarrow> conv_bool v dflt)"

definition bool_as_int :: "bool \<Rightarrow> string" where
  "bool_as_int b = (if b then ''1'' else ''0'')"

section \<open>The DMX element\<close>

text \<open>
  An attribute holds one value or an array of values.  A value is binary, boolean, or of
  one of the other value types (\<open>Other\<close>, with a payload of any type).  Reading a value as
  its own type returns it; reading it as another type goes through the library's table
  of conversions, which is a parameter here: \<open>to_binary\<close> and \<open>to_bool\<close> give what the
  table makes of a value of a different type, an exception included.
\<close>

datatype 'x dm_value = Binary bytes | Boolean bool | Other 'x

datatype 'x attribute = Scalar "'x dm_value" | Array "'x dm_value list"

record 'x type_convert =
  to_binary :: "'x dm_value \<Rightarrow> pyerr + bytes"
  to_bool :: "'x dm_value \<Rightarrow> pyerr + bool"

record 'x element =
  elem_name :: string
  elem_type :: string
  members :: "string \<rightharpoonup> 'x attribute"

definition Element :: "string \<Rightarrow> string \<Rightarrow> 'x element" where
  "Element nm ty = \<lparr>elem_name = nm, elem_type = ty, members = Map.empty\<rparr>"

text \<open>\<open>elem[key]\<close> raises \<open>KeyError\<close> for an absent attribute; \<open>elem[key] = a\<close> stores.\<close>

definition elem_get :: "'x element \<Rightarrow> string \<Rightarrow> pyerr + 'x attribute" where
  "elem_get e key =
     (case members e (casefold key) of None \<Rightarrow> Inl KeyError | Some a \<Rightarrow> Inr a)"

definition elem_set :: "'x element \<Rightarrow> string \<Rightarrow> 'x attribute \<Rightarrow> 'x element" where
  "elem_set e key a = e\<lparr>members := (members e)(casefold key \<mapsto> a)\<rparr>"

definition as_binary :: "'x type_convert \<Rightarrow> 'x dm_value \<Rightarrow> pyerr + bytes" where
  "as_binary tc v = (case v of Binary b \<Rightarrow> Inr b | _ \<Rightarrow> to_binary tc v)"

definition as_bool :: "'x type_convert \<Rightarrow> 'x dm_value \<Rightarrow> pyerr + bool" where
  "as_bool tc v = (case v of Boolean b \<Rightarrow> Inr b | _ \<Rightarrow> to_bool tc v)"

text \<open>\<open>attr.val_bytes\<close> and \<open>attr.val_bool\<close>: an array has no single value.\<close>

definition val_bytes :: "'x type_convert \<Rightarrow> 'x attribute \<Rightarrow> pyerr + bytes" where
  "val_bytes tc a = (case a of Array _ \<Rightarrow> Inl ValueError | Scalar v \<Rightarrow> as_binary tc v)"

definition val_bool :: "'x type_convert \<Rightarrow> 'x attribute \<Rightarrow> pyerr + bool" where
  "val_bool tc a = (case a of Array _ \<Rightarrow> Inl ValueError | Scalar v \<Rightarrow> as_bool tc v)"

text \<open>
  \<open>attr.iter_bytes()\<close> is a generator: the call itself raises nothing, each element is
  converted when the consumer asks for it.  The model is the list of the outcomes.
\<close>

definition iter_bytes :: "'x type_convert \<Rightarrow> 'x attribute \<Rightarrow> (pyerr + bytes) list" where
  "iter_bytes tc a =
     (case a of Array vs \<Rightarrow> map (as_binary tc) vs | Scalar v \<Rightarrow> [as_binary tc v])"

section \<open>The legacy configuration\<close>

text \<open>
  The legacy store \<open>LEGACY_CONF\<close> is defined outside the files at hand.
\<close>

type_synonym legacy_source = "string \<Rightarrow> string \<rightharpoonup> string"

text \<open>
  Modelled from the spec: \<open>LEGACY_CONF.get_val\<close>, whose code is not among the source
  files.  The store is named sections each holding string-keyed scalar values, and is
  read-only; a read substitutes the given default for a missing key and never raises.
\<close>

definition get_val :: "legacy_source \<Rightarrow> string \<Rightarrow> string \<Rightarrow> string \<Rightarrow> string" where
  "get_val conf section key dflt =
     (case conf section key of None \<Rightarrow> dflt | Some v \<Rightarrow> v)"

text \<open>
  Modelled from the spec: \<open>LEGACY_CONF.get_bool\<close>, whose code is not among the source
  files.  It attempts a typed read and substitutes the field's default, false, on any
  error (missing key, wrong type); it never raises.  Which strings read as a boolean is
  left open by the spec and is the parameter \<open>read_bool\<close>.
\<close>

definition get_bool :: "(string \<Rightarrow> bool option) \<Rightarrow> legacy_source \<Rightarrow> string \<Rightarrow> string \<Rightarrow> bool" where
  "get_bool read_bool conf section key =
     (case conf section key of
        None \<Rightarrow> False
      | Some v \<Rightarrow> (case read_bool v of None \<Rightarrow> False | Some b \<Rightarrow> b))"

section \<open>\<open>PaletteState\<close>\<close>

text \<open>
  The class is a frozen \<open>attrs\<close> class with three fields and no validator, converter or
  post-init hook: constructing it stores the three arguments as they are, and two
  instances are equal when their fields are.  The constants \<open>UUID_PORTAL2\<close> and
  \<open>FORCE_SHOWN\<close> are imported from a module outside the files at hand and are parameters
  of every function that uses them.
\<close>

record PaletteState =
  selected :: uuid
  save_settings :: bool
  hidden_defaults :: "uuid set"

definition new_PaletteState :: "uuid \<Rightarrow> bool \<Rightarrow> uuid set \<Rightarrow> PaletteState" where
  "new_PaletteState sel save hidden =
     \<lparr>selected = sel, save_settings = save, hidden_defaults = hidden\<rparr>"

text \<open>
  A set comprehension \<open>{f(x) for x in xs}\<close> whose \<open>f\<close> may raise: the elements are
  taken in order and the first exception ends it.
\<close>

fun set_comprehension :: "('a \<Rightarrow> pyerr + 'b) \<Rightarrow> 'a list \<Rightarrow> pyerr + 'b set" where
  "set_comprehension f [] = Inr {}"
| "set_comprehension f (x # xs) =
     (case f x of
        Inl e \<Rightarrow> Inl e
      | Inr y \<Rightarrow> (case set_comprehension f xs of Inl e \<Rightarrow> Inl e | Inr S \<Rightarrow> Inr (insert y S)))"

subsection \<open>\<open>parse_legacy\<close>\<close>

definition parse_legacy ::
  "uuid \<Rightarrow> (string \<Rightarrow> bool option) \<Rightarrow> legacy_source \<Rightarrow> 'c \<Rightarrow> pyerr + (string \<rightharpoonup> PaletteState)"
where
  "parse_legacy UUID_PORTAL2 read_bool LEGACY_CONF conf =
     (case (case uuid_of_hex (get_val LEGACY_CONF ''Last_Selected'' ''palette_uuid'' []) of
              Inr u \<Rightarrow> Inr u
            | Inl e \<Rightarrow> if e = ValueError then Inr UUID_PORTAL2 else Inl e) of
        Inl e \<Rightarrow> Inl e
      | Inr selected_uuid \<Rightarrow>
          Inr [[] \<mapsto> new_PaletteState selected_uuid
                        (get_bool read_bool LEGACY_CONF ''General'' ''palette_save_settings'')
                        {}])"

subsection \<open>\<open>parse_kv1\<close> and \<open>export_kv1\<close>\<close>

definition kv1_hidden :: "property \<Rightarrow> pyerr + uuid set" where
  "kv1_hidden data =
     set_comprehension (\<lambda>prop. uuid_of_hex (leaf_value prop)) (find_all data ''hidden'')"

definition kv1_selected :: "property \<Rightarrow> pyerr + uuid" where
  "kv1_selected data =
     (case getitem data ''selected'' of Inl e \<Rightarrow> Inl e | Inr s \<Rightarrow> uuid_of_hex s)"

definition parse_kv1 :: "uuid \<Rightarrow> uuid set \<Rightarrow> property \<Rightarrow> int \<Rightarrow> pyerr + PaletteState" where
  "parse_kv1 UUID_PORTAL2 FORCE_SHOWN data version =
     (if version \<noteq> 1 then Inl AssertionError
      else case kv1_hidden data of
        Inl e \<Rightarrow> Inl e
      | Inr hidden \<Rightarrow>
          (case (case kv1_selected data of
                   Inr u \<Rightarrow> Inr u
                 | Inl e \<Rightarrow> if lookup_or_value_error e then Inr UUID_PORTAL2 else Inl e) of
             Inl e \<Rightarrow> Inl e
           | Inr uuid \<Rightarrow>
               Inr (new_PaletteState uuid (prop_bool data ''save_settings'' False)
                      (hidden - {uuid} - FORCE_SHOWN))))"

text \<open>
  The export walks \<open>self.hidden_defaults\<close>, a frozenset, in the interpreter's iteration
  order, which is the parameter \<open>iter\<close>: it lists the members of the set.
\<close>

definition export_kv1 :: "(uuid set \<Rightarrow> uuid list) \<Rightarrow> PaletteState \<Rightarrow> property" where
  "export_kv1 iter self =
     Property []
       ([Leaf ''selected'' (uuid_hex (selected self)),
         Leaf ''save_settings'' (bool_as_int (save_settings self))]
        @ map (\<lambda>hidden. Leaf ''hidden'' (uuid_hex hidden)) (iter (hidden_defaults self)))"

subsection \<open>\<open>parse_dmx\<close> and \<open>export_dmx\<close>\<close>

definition dmx_selected :: "'x type_convert \<Rightarrow> 'x element \<Rightarrow> pyerr + uuid" where
  "dmx_selected tc data =
     (case elem_get data ''selected'' of
        Inl e \<Rightarrow> Inl e
      | Inr a \<Rightarrow> (case val_bytes tc a of Inl e \<Rightarrow> Inl e | Inr b \<Rightarrow> uuid_of_bytes b))"

definition dmx_hidden :: "'x type_convert \<Rightarrow> 'x attribute \<Rightarrow> pyerr + uuid set" where
  "dmx_hidden tc a =
     set_comprehension (\<lambda>byt. case byt of Inl e \<Rightarrow> Inl e | Inr b \<Rightarrow> uuid_of_bytes b)
       (iter_bytes tc a)"

definition dmx_save_settings :: "'x type_convert \<Rightarrow> 'x element \<Rightarrow> pyerr + bool" where
  "dmx_save_settings tc data =
     (case elem_get data ''save_settings'' of Inl e \<Rightarrow> Inl e | Inr a \<Rightarrow> val_bool tc a)"

text \<open>The \<open>version\<close> argument is not read anywhere in the body.\<close>

definition parse_dmx ::
  "uuid \<Rightarrow> uuid set \<Rightarrow> 'x type_convert \<Rightarrow> 'x element \<Rightarrow> int \<Rightarrow> pyerr + PaletteState"
where
  "parse_dmx UUID_PORTAL2 FORCE_SHOWN tc data version =
     (case (case dmx_selected tc data of
              Inr u \<Rightarrow> Inr u
            | Inl e \<Rightarrow> if lookup_or_value_error e then Inr UUID_PORTAL2 else Inl e) of
        Inl e \<Rightarrow> Inl e
      | Inr uuid \<Rightarrow>
          (case (case elem_get data ''hidden'' of
                   Inl e \<Rightarrow> if e = KeyError then Inr {} else Inl e
                 | Inr hidden_arr \<Rightarrow>
                     (case dmx_hidden tc hidden_arr of
                        Inl e \<Rightarrow> Inl e
                      | Inr hidden \<Rightarrow> Inr (hidden - {uuid} - FORCE_SHOWN))) of
             Inl e \<Rightarrow> Inl e
           | Inr hidden \<Rightarrow>
               (case dmx_save_settings tc data of
                  Inl e \<Rightarrow> Inl e
                | Inr save \<Rightarrow> Inr (new_PaletteState uuid save hidden))))"

text \<open>
  The array attribute is stored in the element first and filled afterwards through the
  same object; the model stores it filled.
\<close>

definition export_dmx :: "(uuid set \<Rightarrow> uuid list) \<Rightarrow> PaletteState \<Rightarrow> 'x element" where
  "export_dmx iter self =
     (let elem = Element ''Palette'' ''DMElement'';
          elem = elem_set elem ''selected'' (Scalar (Binary (uuid_bytes (selected self))));
          elem = elem_set elem ''save_settings'' (Scalar (Boolean (save_settings self)))
      in elem_set elem ''hidden''
           (Array (map (\<lambda>uuid. Binary (uuid_bytes uuid)) (iter (hidden_defaults self)))))"

section \<open>Properties\<close>

text \<open>
  The two invariants of a record: its selected identifier is not hidden, and no
  force-shown identifier is.
\<close>

definition invariant :: "uuid set \<Rightarrow> PaletteState \<Rightarrow> bool" where
  "invariant FORCE_SHOWN r =
     (selected r \<notin> hidden_defaults r \<and> hidden_defaults r \<inter> FORCE_SHOWN = {})"

text \<open>The characters \<open>'%032x'\<close> produces.\<close>

definition lowhex :: "char \<Rightarrow> bool" where
  "lowhex c = (c \<in> set ''0123456789abcdef'')"

subsection \<open>Values for concrete runs\<close>

text \<open>
  An iteration order: the members of the set in the order of a given list.  A conversion
  table in which no conversion exists, so that every read of a value as another type
  raises \<open>ValueError\<close>.  A legacy store without keys, and one whose only key is an empty
  \<open>palette_uuid\<close>.  A reader of legacy booleans.
\<close>

definition iter_in_order :: "uuid list \<Rightarrow> uuid set \<Rightarrow> uuid list" where
  "iter_in_order xs S = filter (\<lambda>u. u \<in> S) (remdups xs)"

definition no_convert :: "unit type_convert" where
  "no_convert = \<lparr>to_binary = (\<lambda>v. Inl ValueError), to_bool = (\<lambda>v. Inl ValueError)\<rparr>"

definition empty_legacy :: legacy_source where
  "empty_legacy = (\<lambda>section. Map.empty)"

definition blank_uuid_legacy :: legacy_source where
  "blank_uuid_legacy = empty_legacy(''Last_Selected'' := [''palette_uuid'' \<mapsto> []])"

definition read_01 :: "string \<Rightarrow> bool option" where
  "read_01 s = (if s = ''1'' then Some True else if s = ''0'' then Some False else None)"

subsection \<open>The identifier codec\<close>

lemma digits_value_snoc: "digits_value b (ds @ [d]) = b * digits_value b ds + d"
  by (simp add: digits_value_def)

lemma digits_roundtrip: "digits_value b (nat_digits b k n) = n mod b ^ k"
proof (induction k arbitrary: n)
  case 0 show ?case by (simp add: digits_value_def)
next
  case (Suc k)
  show ?case
    by (simp add: digits_value_snoc Suc.IH mod_mult2_eq mult.commute)
qed

lemma length_nat_digits: "length (nat_digits b k n) = k"
  by (induction k arbitrary: n) simp_all

lemma nat_digits_bound: "0 < b \<Longrightarrow> d \<in> set (nat_digits b k n) \<Longrightarrow> d < b"
  by (induction k arbitrary: n) auto

lemma hex_char_table:
  "list_all (\<lambda>d. lowhex (hex_char d) \<and> hex_val (hex_char d) = Some d) [0..<16]"
  by code_simp

lemma hex_char_props:
  assumes "d < 16"
  shows "lowhex (hex_char d)" and "hex_val (hex_char d) = Some d"
  using hex_char_table assms by (simp_all add: list_all_iff)

lemma lowhex_table:
  "list_all (\<lambda>c. hex_val c \<noteq> None \<and> \<not> is_space c \<and> c \<noteq> CHR ''_'' \<and> c \<noteq> CHR ''x''
      \<and> c \<noteq> CHR ''X'' \<and> c \<noteq> CHR ''+'' \<and> c \<noteq> CHR ''-'' \<and> c \<noteq> CHR ''u''
      \<and> c \<noteq> CHR ''{'' \<and> c \<noteq> CHR ''}'') ''0123456789abcdef''"
  by code_simp

lemma lowhex_props:
  assumes "lowhex c"
  shows "hex_val c \<noteq> None" "\<not> is_space c" "c \<noteq> CHR ''_''" "c \<noteq> CHR ''x''" "c \<noteq> CHR ''X''"
    "c \<noteq> CHR ''+''" "c \<noteq> CHR ''-''" "c \<noteq> CHR ''u''" "c \<noteq> CHR ''{''" "c \<noteq> CHR ''}''"
  using lowhex_table assms unfolding lowhex_def list_all_iff by blast+

lemma str_delete_absent: "old \<noteq> [] \<Longrightarrow> hd old \<notin> set s \<Longrightarrow> str_delete old s = s"
proof (induction s)
  case Nil show ?case by simp
next
  case (Cons c cs)
  from Cons.prems have "\<not> prefix old (c # cs)"
    by (cases old) auto
  with Cons show ?case by simp
qed

lemma dropWhile_none: "\<forall>c\<in>set s. \<not> p c \<Longrightarrow> dropWhile p s = s"
  by (cases s) auto

lemma str_strip_none: "\<forall>c\<in>set s. \<not> p c \<Longrightarrow> str_strip p s = s"
  by (simp add: str_strip_def dropWhile_none)

lemma skip_prefix_none: "CHR ''x'' \<notin> set s \<Longrightarrow> CHR ''X'' \<notin> set s \<Longrightarrow> skip_prefix s = s"
  by (auto simp: skip_prefix_def split: list.splits)

lemma hex_body_plain:
  "s \<noteq> [] \<Longrightarrow> \<forall>c\<in>set s. hex_val c \<noteq> None \<and> c \<noteq> CHR ''_'' \<Longrightarrow>
   hex_body s = Some (map (\<lambda>c. the (hex_val c)) s)"
proof (induction s rule: hex_body.induct)
  case 1 then show ?case by simp
next
  case (2 c cs)
  show ?case
  proof (cases cs)
    case Nil with 2 show ?thesis by auto
  next
    case (Cons x xs)
    with "2.prems" have "x \<noteq> CHR ''_''" by simp
    moreover from "2.prems" obtain d where d: "hex_val c = Some d" by auto
    moreover have "hex_body cs = Some (map (\<lambda>c. the (hex_val c)) cs)"
      using "2.IH"(2)[OF d Cons \<open>x \<noteq> CHR ''_''\<close>] "2.prems" Cons by simp
    ultimately show ?thesis using Cons by simp
  qed
qed

lemma lowhex_uuid_hex: "c \<in> set (uuid_hex u) \<Longrightarrow> lowhex c"
  by (auto simp: uuid_hex_def dest!: nat_digits_bound[rotated] intro: hex_char_props(1))

lemma length_uuid_hex: "length (uuid_hex u) = 32"
  by (simp add: uuid_hex_def length_nat_digits)

lemma hex_vals_uuid_hex:
  "map (\<lambda>c. the (hex_val c)) (uuid_hex u) = nat_digits 16 32 (unat u)"
proof -
  have "\<forall>d\<in>set (nat_digits 16 32 (unat u)). the (hex_val (hex_char d)) = d"
    using nat_digits_bound[of 16] by (simp add: hex_char_props(2))
  then show ?thesis
    by (simp add: uuid_hex_def map_idI)
qed

lemma uuid_hex_digits: "digits_value 16 (nat_digits 16 32 (unat (u :: uuid))) = unat u"
proof -
  have "unat u < 2 ^ 128" using unsigned_less[of u] by simp
  also have "(2::nat) ^ 128 = 16 ^ 32" by simp
  finally show ?thesis by (simp only: digits_roundtrip mod_less)
qed

lemma uuid_byte_digits: "digits_value 256 (nat_digits 256 16 (unat (u :: uuid))) = unat u"
proof -
  have "unat u < 2 ^ 128" using unsigned_less[of u] by simp
  also have "(2::nat) ^ 128 = 256 ^ 16" by simp
  finally show ?thesis by (simp only: digits_roundtrip mod_less)
qed

lemma int16_uuid_hex: "int16 (uuid_hex u) = Some (int (unat u))"
proof -
  let ?s = "uuid_hex u"
  have ne: "?s \<noteq> []" using length_uuid_hex[of u] by auto
  have all: "\<forall>c\<in>set ?s. lowhex c" by (simp add: lowhex_uuid_hex)
  have strip: "str_strip is_space ?s = ?s"
    using all by (intro str_strip_none) (auto dest: lowhex_props(2))
  obtain c cs where s: "?s = c # cs" using ne by (cases ?s) auto
  have c: "c \<noteq> CHR ''+''" "c \<noteq> CHR ''-''"
    using all s lowhex_props(6,7)[of c] by auto
  have pre: "skip_prefix ?s = ?s"
    using all by (intro skip_prefix_none) (auto dest: lowhex_props(4,5))
  have body: "hex_body ?s = Some (nat_digits 16 32 (unat u))"
    using hex_body_plain[OF ne] all lowhex_props(1,3) hex_vals_uuid_hex[of u] by auto
  have "unsigned16 ?s = Some (unat u)"
    by (simp add: unsigned16_def pre body uuid_hex_digits)
  then show ?thesis
    using c strip s by (simp add: int16_def)
qed

lemma uuid_hex_roundtrip: "uuid_of_hex (uuid_hex u) = Inr u"
proof -
  let ?s = "uuid_hex u"
  have all: "\<forall>c\<in>set ?s. lowhex c" by (simp add: lowhex_uuid_hex)
  have u: "CHR ''u'' \<notin> set ?s" and m: "CHR ''-'' \<notin> set ?s"
    using all lowhex_props(8,7) by blast+
  have d1: "str_delete ''urn:'' ?s = ?s" using u by (intro str_delete_absent) simp_all
  have d2: "str_delete ''uuid:'' ?s = ?s" using u by (intro str_delete_absent) simp_all
  have d3: "str_delete ''-'' ?s = ?s" using m by (intro str_delete_absent) simp_all
  have st: "str_strip (\<lambda>c. c = CHR ''{'' \<or> c = CHR ''}'') ?s = ?s"
    using all by (intro str_strip_none) (auto dest: lowhex_props(9,10))
  have "unat u < 2 ^ 128" using unsigned_less[of u] by simp
  then have "int (unat u) < 2 ^ 128" by (metis of_nat_less_iff of_nat_numeral of_nat_power)
  then show ?thesis
    by (simp add: uuid_of_hex_def d1 d2 d3 st length_uuid_hex int16_uuid_hex)
qed

lemma uuid_bytes_roundtrip: "uuid_of_bytes (uuid_bytes u) = Inr u"
proof -
  have "\<forall>d\<in>set (nat_digits 256 16 (unat u)). unat (of_nat d :: 8 word) = d"
    using nat_digits_bound[of 256] by (auto intro!: of_nat_inverse)
  then have "map unat (uuid_bytes u) = nat_digits 256 16 (unat u)"
    by (simp add: uuid_bytes_def map_idI)
  then show ?thesis
    by (simp add: uuid_of_bytes_def uuid_byte_digits) (simp add: uuid_bytes_def length_nat_digits)
qed

lemma uuid_of_hex_error: "uuid_of_hex s = Inl e \<Longrightarrow> e = ValueError"
  by (auto simp: uuid_of_hex_def Let_def split: if_splits option.splits)


subsection \<open>Reading back what the exports write\<close>

lemma casefold_keys:
  "casefold ''selected'' = ''selected''"
  "casefold ''save_settings'' = ''save_settings''"
  "casefold ''hidden'' = ''hidden''"
  by code_simp+

lemma set_comprehension_map:
  "\<forall>x\<in>set xs. f (h x) = Inr x \<Longrightarrow> set_comprehension f (map h xs) = Inr (set xs)"
  by (induction xs) simp_all

lemma bool_lookup_01:
  "map_of BOOL_LOOKUP (casefold ''1'') = Some True"
  "map_of BOOL_LOOKUP (casefold ''0'') = Some False"
  by code_simp+

lemma conv_bool_as_int: "conv_bool (bool_as_int b) d = b"
  by (simp add: conv_bool_def bool_as_int_def bool_lookup_01)

lemma new_PaletteState_fields:
  "new_PaletteState (selected r) (save_settings r) (hidden_defaults r) = r"
  by (simp add: new_PaletteState_def)

lemma find_all_export_hidden:
  "find_all (export_kv1 iter r) ''hidden''
     = map (\<lambda>h. Leaf ''hidden'' (uuid_hex h)) (iter (hidden_defaults r))"
  by (simp add: find_all_def export_kv1_def casefold_keys filter_map comp_def)

lemma find_all_export_selected:
  "find_all (export_kv1 iter r) ''selected'' = [Leaf ''selected'' (uuid_hex (selected r))]"
  by (simp add: find_all_def export_kv1_def casefold_keys filter_map comp_def)

lemma find_all_export_save:
  "find_all (export_kv1 iter r) ''save_settings''
     = [Leaf ''save_settings'' (bool_as_int (save_settings r))]"
  by (simp add: find_all_def export_kv1_def casefold_keys filter_map comp_def)

lemma kv1_hidden_export:
  "kv1_hidden (export_kv1 iter r) = Inr (set (iter (hidden_defaults r)))"
  unfolding kv1_hidden_def find_all_export_hidden
  by (rule set_comprehension_map) (simp add: uuid_hex_roundtrip)

lemma kv1_selected_export: "kv1_selected (export_kv1 iter r) = Inr (selected r)"
  by (simp add: kv1_selected_def getitem_def find_all_export_selected uuid_hex_roundtrip)

lemma prop_bool_export:
  "prop_bool (export_kv1 iter r) ''save_settings'' d = save_settings r"
  by (simp add: prop_bool_def getitem_def find_all_export_save conv_bool_as_int)

text \<open>
  What \<open>parse_kv1\<close> makes of an exported record, whatever the record: the fields come
  back, and the hidden set comes back filtered.
\<close>

lemma parse_export_kv1:
  "parse_kv1 default_uuid force_shown (export_kv1 iter r) 1
     = Inr (new_PaletteState (selected r) (save_settings r)
              (set (iter (hidden_defaults r)) - {selected r} - force_shown))"
  by (simp add: parse_kv1_def kv1_hidden_export kv1_selected_export prop_bool_export)

lemma elem_get_export:
  "elem_get (export_dmx iter r) ''selected'' = Inr (Scalar (Binary (uuid_bytes (selected r))))"
  "elem_get (export_dmx iter r) ''save_settings'' = Inr (Scalar (Boolean (save_settings r)))"
  "elem_get (export_dmx iter r) ''hidden''
     = Inr (Array (map (\<lambda>uuid. Binary (uuid_bytes uuid)) (iter (hidden_defaults r))))"
  by (simp_all add: elem_get_def export_dmx_def elem_set_def Element_def casefold_keys)

lemma dmx_hidden_export:
  "dmx_hidden tc (Array (map (\<lambda>uuid. Binary (uuid_bytes uuid)) xs)) = Inr (set xs)"
proof -
  have "set_comprehension (\<lambda>byt. case byt of Inl e \<Rightarrow> Inl e | Inr b \<Rightarrow> uuid_of_bytes b)
          (map (\<lambda>u. Inr (uuid_bytes u)) xs) = Inr (set xs)"
    by (rule set_comprehension_map) (simp add: uuid_bytes_roundtrip)
  then show ?thesis
    by (simp add: dmx_hidden_def iter_bytes_def as_binary_def comp_def)
qed

text \<open>The same for \<open>parse_dmx\<close>, at every version number.\<close>

lemma parse_export_dmx:
  "parse_dmx default_uuid force_shown tc (export_dmx iter r) version
     = Inr (new_PaletteState (selected r) (save_settings r)
              (set (iter (hidden_defaults r)) - {selected r} - force_shown))"
  by (simp add: parse_dmx_def dmx_selected_def dmx_save_settings_def elem_get_export
        val_bytes_def val_bool_def as_binary_def as_bool_def uuid_bytes_roundtrip
        dmx_hidden_export)

subsection \<open>The invariants on each ingestion path\<close>

lemma parse_kv1_invariant:
  "parse_kv1 default_uuid force_shown data version = Inr r \<Longrightarrow> invariant force_shown r"
  by (auto simp: parse_kv1_def invariant_def new_PaletteState_def
           split: if_splits sum.splits)

lemma parse_dmx_invariant:
  "parse_dmx default_uuid force_shown tc data version = Inr r \<Longrightarrow> invariant force_shown r"
  by (auto simp: parse_dmx_def invariant_def new_PaletteState_def
           split: if_splits sum.splits)

lemma parse_legacy_invariant:
  "parse_legacy default_uuid read_bool legacy conf = Inr m \<Longrightarrow> m k = Some r \<Longrightarrow>
   invariant force_shown r"
  by (auto simp: parse_legacy_def invariant_def new_PaletteState_def
           split: if_splits sum.splits)

lemma uuid_of_hex_empty: "uuid_of_hex [] = Inl ValueError"
  by code_simp

lemma parse_legacy_blank:
  "parse_legacy 1 read_01 blank_uuid_legacy () = Inr [[] \<mapsto> new_PaletteState 1 False {}]"
  by (simp add: parse_legacy_def get_val_def get_bool_def blank_uuid_legacy_def
        empty_legacy_def uuid_of_hex_empty)

text \<open>
  C1.  Every record that \<open>parse_kv1\<close>, \<open>parse_dmx\<close> or \<open>parse_legacy\<close> returns satisfies
  the invariants: its selected identifier is not in its hidden set, and no force-shown
  identifier is.
\<close>

theorem ingestion_invariants:
  "(parse_kv1 default_uuid force_shown data version = Inr r \<longrightarrow> invariant force_shown r) \<and>
   (parse_dmx default_uuid force_shown tc elem version = Inr r' \<longrightarrow> invariant force_shown r') \<and>
   (parse_legacy default_uuid read_bool legacy conf = Inr m \<and> m k = Some r''
      \<longrightarrow> invariant force_shown r'')"
  by (intro conjI impI)
     (erule parse_kv1_invariant, erule parse_dmx_invariant,
      erule conjE, erule (1) parse_legacy_invariant)

theorem ingestion_invariants_witness:
  "parse_kv1 1 {1}
       (Property [] [Leaf ''selected'' ''000000000000000000000000000000aa'',
                     Leaf ''save_settings'' ''1'',
                     Leaf ''hidden'' ''000000000000000000000000000000aa'',
                     Leaf ''hidden'' ''00000000000000000000000000000001'',
                     Leaf ''hidden'' ''000000000000000000000000000000bb'']) 1
     = Inr (new_PaletteState 0xaa True {0xbb}) \<and>
   invariant {1} (new_PaletteState 0xaa True {0xbb}) \<and>
   parse_dmx 1 {1} no_convert
       (elem_set (elem_set (elem_set (Element ''Palette'' ''DMElement'')
          ''selected'' (Scalar (Binary [0,0,0,0,0,0,0,0,0,0,0,0,0,0,0,0xaa])))
          ''save_settings'' (Scalar (Boolean False)))
          ''hidden'' (Array [Binary [0,0,0,0,0,0,0,0,0,0,0,0,0,0,0,0xaa],
                             Binary [0,0,0,0,0,0,0,0,0,0,0,0,0,0,0,1],
                             Binary [0,0,0,0,0,0,0,0,0,0,0,0,0,0,0,0xbb]])) 1
     = Inr (new_PaletteState 0xaa False {0xbb}) \<and>
   invariant {1} (new_PaletteState 0xaa False {0xbb}) \<and>
   parse_legacy 1 read_01 blank_uuid_legacy () = Inr [[] \<mapsto> new_PaletteState 1 False {}] \<and>
   [[] \<mapsto> new_PaletteState 1 False {}] ([] :: string) = Some (new_PaletteState 1 False {}) \<and>
   invariant {1} (new_PaletteState 1 False {})"
proof -
  let ?K = "Property [] [Leaf ''selected'' ''000000000000000000000000000000aa'',
                     Leaf ''save_settings'' ''1'',
                     Leaf ''hidden'' ''000000000000000000000000000000aa'',
                     Leaf ''hidden'' ''00000000000000000000000000000001'',
                     Leaf ''hidden'' ''000000000000000000000000000000bb'']"
  let ?E = "elem_set (elem_set (elem_set (Element ''Palette'' ''DMElement'')
          ''selected'' (Scalar (Binary [0,0,0,0,0,0,0,0,0,0,0,0,0,0,0,0xaa])))
          ''save_settings'' (Scalar (Boolean False)))
          ''hidden'' (Array [Binary [0,0,0,0,0,0,0,0,0,0,0,0,0,0,0,0xaa],
                             Binary [0,0,0,0,0,0,0,0,0,0,0,0,0,0,0,1],
                             Binary [0,0,0,0,0,0,0,0,0,0,0,0,0,0,0,0xbb]])"
  have a: "parse_kv1 1 {1} ?K 1 = Inr (new_PaletteState 0xaa True {0xbb})"
    by code_simp
  have b: "parse_dmx 1 {1} no_convert ?E 1 = Inr (new_PaletteState 0xaa False {0xbb})"
    by code_simp
  note c = parse_legacy_blank
  have d: "[[] \<mapsto> new_PaletteState 1 False {}] ([]::string) = Some (new_PaletteState 1 False {})"
    by simp
  note t = ingestion_invariants
    [where default_uuid = 1 and force_shown = "{1}" and data = ?K and version = 1
       and r = "new_PaletteState 0xaa True {0xbb}" and tc = no_convert and elem = ?E
       and r' = "new_PaletteState 0xaa False {0xbb}" and read_bool = read_01
       and legacy = blank_uuid_legacy and conf = "()"
       and m = "[[] \<mapsto> new_PaletteState 1 False {}]" and k = "[]"
       and r'' = "new_PaletteState 1 False {}"]
  note i1 = t [THEN conjunct1, THEN mp, OF a]
  note i2 = t [THEN conjunct2, THEN conjunct1, THEN mp, OF b]
  note i3 = t [THEN conjunct2, THEN conjunct2, THEN mp, OF conjI [OF c d]]
  show ?thesis by (intro conjI a b c d i1 i2 i3)
qed

text \<open>
  C10.  The result of \<open>parse_legacy\<close> does not depend on its \<open>conf\<close> argument: for the
  same legacy store, any two property nodes give the same result.
\<close>

theorem parse_legacy_ignores_conf:
  "parse_legacy default_uuid read_bool legacy (p :: property)
     = parse_legacy default_uuid read_bool legacy (q :: property)"
  by (simp add: parse_legacy_def)

subsection \<open>Round trips\<close>

lemma invariant_filter:
  "invariant force_shown r \<Longrightarrow> hidden_defaults r - {selected r} - force_shown = hidden_defaults r"
  by (auto simp: invariant_def)

text \<open>
  C2, as amended.  For every record that satisfies the invariants, parsing the exported
  text form at version 1 returns the record, whatever order the export walks the hidden
  set in.  (A record built directly need not satisfy them, and then the parse drops the
  offending identifiers.)
\<close>

theorem export_parse_kv1_roundtrip:
  assumes "set (iter (hidden_defaults r)) = hidden_defaults r"
    and "invariant force_shown r"
  shows "parse_kv1 default_uuid force_shown (export_kv1 iter r) 1 = Inr r"
  using assms
  by (simp add: parse_export_kv1 invariant_filter new_PaletteState_fields)

lemma iter_in_order_single: "set (iter_in_order [u] {u}) = {u}"
  by (simp add: iter_in_order_def)

theorem export_parse_kv1_roundtrip_witness:
  "set (iter_in_order [0xbb] (hidden_defaults (new_PaletteState 0xaa True {0xbb})))
     = hidden_defaults (new_PaletteState 0xaa True {0xbb}) \<and>
   invariant {1} (new_PaletteState 0xaa True {0xbb}) \<and>
   parse_kv1 1 {1} (export_kv1 (iter_in_order [0xbb]) (new_PaletteState 0xaa True {0xbb})) 1
     = Inr (new_PaletteState 0xaa True {0xbb})"
proof -
  have h1: "set (iter_in_order [0xbb] (hidden_defaults (new_PaletteState 0xaa True {0xbb})))
     = hidden_defaults (new_PaletteState 0xaa True {0xbb})"
    by (simp add: new_PaletteState_def iter_in_order_def)
  have h2: "invariant {1} (new_PaletteState 0xaa True {0xbb})"
    by (simp add: invariant_def new_PaletteState_def)
  from export_parse_kv1_roundtrip
         [where iter = "iter_in_order [0xbb]" and r = "new_PaletteState 0xaa True {0xbb}"
            and force_shown = "{1}" and default_uuid = 1, OF h1 h2] h1 h2
  show ?thesis by simp
qed

text \<open>
  C2 as stated fails: a record whose hidden set holds its own selected identifier comes
  back from the text form without it.
\<close>

theorem export_parse_kv1_loses_selected:
  "parse_kv1 1 {1} (export_kv1 (iter_in_order [1]) (new_PaletteState 1 False {1})) 1
     = Inr (new_PaletteState 1 False {}) \<and>
   new_PaletteState 1 False {} \<noteq> new_PaletteState 1 False {1}"
  by (simp add: parse_export_kv1 new_PaletteState_def iter_in_order_def)

text \<open>
  C3, as amended.  For every record that satisfies the invariants, parsing the exported
  binary form at version 1 returns the record.
\<close>

theorem export_parse_dmx_roundtrip:
  assumes "set (iter (hidden_defaults r)) = hidden_defaults r"
    and "invariant force_shown r"
  shows "parse_dmx default_uuid force_shown tc (export_dmx iter r) 1 = Inr r"
  using assms
  by (simp add: parse_export_dmx invariant_filter new_PaletteState_fields)

theorem export_parse_dmx_roundtrip_witness:
  "set (iter_in_order [0xbb] (hidden_defaults (new_PaletteState 0xaa True {0xbb})))
     = hidden_defaults (new_PaletteState 0xaa True {0xbb}) \<and>
   invariant {1} (new_PaletteState 0xaa True {0xbb}) \<and>
   parse_dmx 1 {1} no_convert
     (export_dmx (iter_in_order [0xbb]) (new_PaletteState 0xaa True {0xbb})) 1
     = Inr (new_PaletteState 0xaa True {0xbb})"
proof -
  have h1: "set (iter_in_order [0xbb] (hidden_defaults (new_PaletteState 0xaa True {0xbb})))
     = hidden_defaults (new_PaletteState 0xaa True {0xbb})"
    by (simp add: new_PaletteState_def iter_in_order_def)
  have h2: "invariant {1} (new_PaletteState 0xaa True {0xbb})"
    by (simp add: invariant_def new_PaletteState_def)
  from export_parse_dmx_roundtrip
         [where iter = "iter_in_order [0xbb]" and r = "new_PaletteState 0xaa True {0xbb}"
            and force_shown = "{1}" and default_uuid = 1 and tc = no_convert, OF h1 h2] h1 h2
  show ?thesis by simp
qed

text \<open>
  C3 as stated fails: a record whose hidden set holds its own selected identifier, next
  to another one, comes back from the binary form with the other one only.
\<close>

theorem export_parse_dmx_loses_selected:
  "parse_dmx 1 {1} no_convert
     (export_dmx (iter_in_order [0xaa, 0xbb]) (new_PaletteState 0xaa True {0xaa, 0xbb})) 1
     = Inr (new_PaletteState 0xaa True {0xbb}) \<and>
   new_PaletteState 0xaa True {0xbb} \<noteq> new_PaletteState 0xaa True {0xaa, 0xbb}"
  by (auto simp: parse_export_dmx new_PaletteState_def iter_in_order_def)

text \<open>
  C4.  At version 2 the text parser fails its assertion, but the binary parser returns a
  record: it never looks at the version number.
\<close>

theorem parse_dmx_accepts_version_2:
  "parse_kv1 1 {1} (export_kv1 (iter_in_order []) (new_PaletteState 1 False {})) 2
     = Inl AssertionError \<and>
   parse_dmx 1 {1} no_convert (export_dmx (iter_in_order []) (new_PaletteState 1 False {})) 2
     = Inr (new_PaletteState 1 False {})"
  by (simp add: parse_kv1_def parse_export_dmx new_PaletteState_def iter_in_order_def)

text \<open>
  C5.  Without a \<open>save_settings\<close> entry the text parser falls back to false; the binary
  parser raises \<open>KeyError\<close> on an element that has no \<open>save_settings\<close> attribute.
\<close>

theorem parse_dmx_missing_save_settings:
  "parse_kv1 1 {1}
     (Property [] [Leaf ''selected'' ''00000000000000000000000000000002'']) 1
     = Inr (new_PaletteState 2 False {}) \<and>
   parse_dmx 1 {1} no_convert
     (elem_set (elem_set (Element ''Palette'' ''DMElement'')
        ''selected'' (Scalar (Binary [0,0,0,0,0,0,0,0,0,0,0,0,0,0,0,2])))
        ''hidden'' (Array [])) 1
     = Inl KeyError"
  by code_simp

text \<open>
  C8.  An element with a \<open>selected\<close> attribute and nothing else has no \<open>hidden\<close>
  attribute; the parse does not return a record with an empty hidden set, it raises
  \<open>KeyError\<close> when it reads \<open>save_settings\<close>.
\<close>

theorem parse_dmx_selected_only_fails:
  "parse_dmx 1 {1} no_convert
     (elem_set (Element ''Palette'' ''DMElement'')
        ''selected'' (Scalar (Binary [0,0,0,0,0,0,0,0,0,0,0,0,0,0,0,2]))) 1
   = Inl KeyError"
  by code_simp

text \<open>
  The missing \<open>hidden\<close> attribute itself is handled: for every element without one whose
  \<open>save_settings\<close> attribute reads as a boolean, and whose \<open>selected\<close> read returns or
  raises a \<open>LookupError\<close> or \<open>ValueError\<close>, \<open>parse_dmx\<close> returns a record with an empty
  hidden set, at every version number.
\<close>

lemma parse_dmx_no_hidden:
  assumes "elem_get data ''hidden'' = Inl KeyError"
    and "dmx_save_settings tc data = Inr save"
    and "dmx_selected tc data = Inr u \<or> (\<exists>e. dmx_selected tc data = Inl e \<and> lookup_or_value_error e)"
  shows "parse_dmx default_uuid force_shown tc data version
           = Inr (new_PaletteState (case dmx_selected tc data of Inr u \<Rightarrow> u | Inl e \<Rightarrow> default_uuid)
                    save {})"
  using assms by (auto simp: parse_dmx_def)

lemma parse_dmx_no_hidden_example:
  "elem_get (elem_set (elem_set (Element ''Palette'' ''DMElement'')
        ''selected'' (Scalar (Binary [0,0,0,0,0,0,0,0,0,0,0,0,0,0,0,2])))
        ''save_settings'' (Scalar (Boolean True))) ''hidden'' = (Inl KeyError :: pyerr + unit attribute) \<and>
   parse_dmx 1 {1} no_convert
     (elem_set (elem_set (Element ''Palette'' ''DMElement'')
        ''selected'' (Scalar (Binary [0,0,0,0,0,0,0,0,0,0,0,0,0,0,0,2])))
        ''save_settings'' (Scalar (Boolean True))) 1
   = Inr (new_PaletteState 2 True {})"
proof -
  let ?E = "elem_set (elem_set (Element ''Palette'' ''DMElement'')
        ''selected'' (Scalar (Binary [0,0,0,0,0,0,0,0,0,0,0,0,0,0,0,2])))
        ''save_settings'' (Scalar (Boolean True)) :: unit element"
  have h1: "elem_get ?E ''hidden'' = Inl KeyError" by code_simp
  have h2: "dmx_save_settings no_convert ?E = Inr True" by code_simp
  have h3: "dmx_selected no_convert ?E = Inr 2" by code_simp
  from parse_dmx_no_hidden [OF h1 h2 disjI1 [OF h3], of 1 "{1}" 1] h1 h3
  show ?thesis by simp
qed

subsection \<open>Fallbacks\<close>

lemma parse_legacy_result:
  "parse_legacy default_uuid read_bool legacy conf
     = Inr [[] \<mapsto> new_PaletteState
             (case uuid_of_hex (get_val legacy ''Last_Selected'' ''palette_uuid'' []) of
                Inr u \<Rightarrow> u | Inl e \<Rightarrow> default_uuid)
             (get_bool read_bool legacy ''General'' ''palette_save_settings'') {}]"
  by (auto simp: parse_legacy_def split: sum.splits dest: uuid_of_hex_error)

text \<open>
  C6.  \<open>parse_legacy\<close> returns for every legacy store, and what it returns has exactly
  one entry, under the empty sub-key.  For a store without keys, and for a store whose
  \<open>palette_uuid\<close> is empty and which has no \<open>palette_save_settings\<close> key, the entry is
  the default record: the default identifier selected, \<open>save_settings\<close> false, nothing
  hidden.
\<close>

theorem parse_legacy_never_fails:
  "(\<exists>r. parse_legacy default_uuid read_bool legacy conf = Inr [[] \<mapsto> r]) \<and>
   parse_legacy default_uuid read_bool empty_legacy conf
     = Inr [[] \<mapsto> new_PaletteState default_uuid False {}] \<and>
   (legacy ''Last_Selected'' ''palette_uuid'' = Some [] \<and>
    legacy ''General'' ''palette_save_settings'' = None \<longrightarrow>
      parse_legacy default_uuid read_bool legacy conf
        = Inr [[] \<mapsto> new_PaletteState default_uuid False {}])"
proof (intro conjI impI)
  show "\<exists>r. parse_legacy default_uuid read_bool legacy conf = Inr [[] \<mapsto> r]"
    unfolding parse_legacy_result by (rule exI) (rule refl)
  show "parse_legacy default_uuid read_bool empty_legacy conf
     = Inr [[] \<mapsto> new_PaletteState default_uuid False {}]"
    by (simp add: parse_legacy_result get_val_def get_bool_def empty_legacy_def uuid_of_hex_empty)
  assume "legacy ''Last_Selected'' ''palette_uuid'' = Some [] \<and>
    legacy ''General'' ''palette_save_settings'' = None"
  then show "parse_legacy default_uuid read_bool legacy conf
        = Inr [[] \<mapsto> new_PaletteState default_uuid False {}]"
    by (simp add: parse_legacy_result get_val_def get_bool_def uuid_of_hex_empty)
qed

theorem parse_legacy_never_fails_witness:
  "blank_uuid_legacy ''Last_Selected'' ''palette_uuid'' = Some [] \<and>
   blank_uuid_legacy ''General'' ''palette_save_settings'' = None \<and>
   parse_legacy 7 read_01 blank_uuid_legacy () = Inr [[] \<mapsto> new_PaletteState 7 False {}]"
proof -
  have h: "blank_uuid_legacy ''Last_Selected'' ''palette_uuid'' = Some [] \<and>
           blank_uuid_legacy ''General'' ''palette_save_settings'' = None"
    by (simp add: blank_uuid_legacy_def empty_legacy_def)
  from parse_legacy_never_fails
         [where legacy = blank_uuid_legacy and default_uuid = 7 and read_bool = read_01
            and conf = "()", THEN conjunct2, THEN conjunct2, THEN mp, OF h] h
  show ?thesis by simp
qed







text \<open>
  C9 as stated fails: the constructor of \<open>PaletteState\<close> removes nothing, so an instance
  whose hidden set holds its own selected identifier exists.
\<close>

theorem constructor_keeps_hidden:
  "selected (new_PaletteState 1 False {1}) \<in> hidden_defaults (new_PaletteState 1 False {1})"
  by (simp add: new_PaletteState_def)

text \<open>
  C9, as amended.  The constructor stores the hidden set it is given unchanged.  The
  removal happens in the parse routines: \<open>parse_kv1\<close> returns the parsed hidden set
  without the selected and the force-shown identifiers, so does \<open>parse_dmx\<close> when the
  element has a \<open>hidden\<close> attribute, and \<open>parse_dmx\<close> without one and \<open>parse_legacy\<close>
  return an empty hidden set.
\<close>

theorem removal_in_parsers_only:
  "hidden_defaults (new_PaletteState sel save hidden) = hidden \<and>
   (parse_kv1 default_uuid force_shown data version = Inr r \<longrightarrow>
      (\<exists>h. kv1_hidden data = Inr h \<and> hidden_defaults r = h - {selected r} - force_shown)) \<and>
   (parse_dmx default_uuid force_shown tc elem version = Inr r' \<longrightarrow>
      (case elem_get elem ''hidden'' of
         Inl e \<Rightarrow> hidden_defaults r' = {}
       | Inr a \<Rightarrow> (\<exists>h. dmx_hidden tc a = Inr h
                       \<and> hidden_defaults r' = h - {selected r'} - force_shown))) \<and>
   (parse_legacy default_uuid read_bool legacy conf = Inr m \<and> m k = Some r''
      \<longrightarrow> hidden_defaults r'' = {})"
proof (intro conjI impI)
  show "hidden_defaults (new_PaletteState sel save hidden) = hidden"
    by (simp add: new_PaletteState_def)
  assume "parse_kv1 default_uuid force_shown data version = Inr r"
  then show "\<exists>h. kv1_hidden data = Inr h \<and> hidden_defaults r = h - {selected r} - force_shown"
    by (auto simp: parse_kv1_def new_PaletteState_def split: if_splits sum.splits)
next
  assume "parse_dmx default_uuid force_shown tc elem version = Inr r'"
  then show "case elem_get elem ''hidden'' of
         Inl e \<Rightarrow> hidden_defaults r' = {}
       | Inr a \<Rightarrow> (\<exists>h. dmx_hidden tc a = Inr h
                       \<and> hidden_defaults r' = h - {selected r'} - force_shown)"
    by (auto simp: parse_dmx_def new_PaletteState_def split: if_splits sum.splits)
next
  assume "parse_legacy default_uuid read_bool legacy conf = Inr m \<and> m k = Some r''"
  then show "hidden_defaults r'' = {}"
    by (auto simp: parse_legacy_def new_PaletteState_def split: if_splits sum.splits)
qed

theorem removal_in_parsers_only_witness:
  "parse_kv1 1 {1}
       (Property [] [Leaf ''selected'' ''000000000000000000000000000000aa'',
                     Leaf ''hidden'' ''000000000000000000000000000000aa'',
                     Leaf ''hidden'' ''000000000000000000000000000000cc'']) 1
     = Inr (new_PaletteState 0xaa False {0xcc}) \<and>
   kv1_hidden
       (Property [] [Leaf ''selected'' ''000000000000000000000000000000aa'',
                     Leaf ''hidden'' ''000000000000000000000000000000aa'',
                     Leaf ''hidden'' ''000000000000000000000000000000cc'']) = Inr {0xaa, 0xcc} \<and>
   hidden_defaults (new_PaletteState 0xaa False {0xcc})
     = {0xaa, 0xcc} - {selected (new_PaletteState 0xaa False {0xcc})} - {1} \<and>
   parse_dmx 1 {1} no_convert
     (elem_set (Element ''Palette'' ''DMElement'') ''save_settings'' (Scalar (Boolean True))) 1
     = Inr (new_PaletteState 1 True {}) \<and>
   hidden_defaults (new_PaletteState 1 True {}) = {} \<and>
   parse_legacy 1 read_01 blank_uuid_legacy () = Inr [[] \<mapsto> new_PaletteState 1 False {}] \<and>
   hidden_defaults (new_PaletteState 1 False {}) = {}"
proof -
  let ?K = "Property [] [Leaf ''selected'' ''000000000000000000000000000000aa'',
                     Leaf ''hidden'' ''000000000000000000000000000000aa'',
                     Leaf ''hidden'' ''000000000000000000000000000000cc'']"
  let ?E = "elem_set (Element ''Palette'' ''DMElement'')
              ''save_settings'' (Scalar (Boolean True)) :: unit element"
  have a: "parse_kv1 1 {1} ?K 1 = Inr (new_PaletteState 0xaa False {0xcc})" by code_simp
  have h: "kv1_hidden ?K = Inr {0xaa, 0xcc}" by code_simp
  have b: "parse_dmx 1 {1} no_convert ?E 1 = Inr (new_PaletteState 1 True {})" by code_simp
  have g: "elem_get ?E ''hidden'' = Inl KeyError" by code_simp
  note c = parse_legacy_blank
  have d: "[[] \<mapsto> new_PaletteState 1 False {}] ([]::string) = Some (new_PaletteState 1 False {})"
    by simp
  note t = removal_in_parsers_only
    [where default_uuid = 1 and force_shown = "{1}" and data = ?K and version = 1
       and r = "new_PaletteState 0xaa False {0xcc}" and tc = no_convert and elem = ?E
       and r' = "new_PaletteState 1 True {}" and read_bool = read_01
       and legacy = blank_uuid_legacy and conf = "()"
       and m = "[[] \<mapsto> new_PaletteState 1 False {}]" and k = "[]"
       and r'' = "new_PaletteState 1 False {}"]
  from t [THEN conjunct2, THEN conjunct1, THEN mp, OF a] h
  have i1: "hidden_defaults (new_PaletteState 0xaa False {0xcc})
     = {0xaa, 0xcc} - {selected (new_PaletteState 0xaa False {0xcc})} - {1}" by simp
  from t [THEN conjunct2, THEN conjunct2, THEN conjunct1, THEN mp, OF b] g
  have i2: "hidden_defaults (new_PaletteState 1 True {}) = {}" by simp
  note i3 = t [THEN conjunct2, THEN conjunct2, THEN conjunct2, THEN mp, OF conjI [OF c d]]
  show ?thesis by (intro conjI a h b c i1 i2 i3)
qed

end
